theory Spec2Isabelle
  imports Main
begin

section \<open>Strings and the Go library functions the server calls\<close>

text \<open>
  A Go \<open>string\<close> is a sequence of bytes; it is modelled as a \<open>char list\<close> (\<open>string\<close>),
  one \<open>char\<close> per byte. The library functions below are the ones \<open>smtpd.go\<close> calls from
  the packages \<open>strings\<close> and \<open>unicode\<close>. Searching, slicing and suffix tests work on
  bytes, in Go as here.
\<close>

text \<open>A run-time panic of Go, by its cause.\<close>

datatype panic = SliceBoundsOutOfRange | IndexOutOfRange

definition CRLF :: string where
  "CRLF = [CHR 0x0D, CHR 0x0A]"

text \<open>A string of 7-bit bytes.\<close>

definition ascii :: "string \<Rightarrow> bool" where
  "ascii s = list_all (\<lambda>c. (of_char c :: nat) < 128) s"

text \<open>
  \<open>strings.ToUpper\<close>, \<open>strings.ToLower\<close>, \<open>strings.TrimRightFunc\<close> with
  \<open>unicode.IsSpace\<close>, and \<open>strings.TrimSpace\<close> decode their argument as UTF-8 and consult
  the Unicode tables of the library. On a string of 7-bit bytes every character is one
  byte and the tables are those of ASCII: the letters \<open>a\<close> to \<open>z\<close> and \<open>A\<close> to \<open>Z\<close>
  correspond, and the white space is tab, line feed, vertical tab, form feed, carriage
  return and space. That part is written out below. What the four functions return on a
  string with a byte from \<open>0x80\<close> upwards is fixed by tables that are not part of the
  repository; it is taken as a parameter, the record \<open>unicode_lib\<close>, and nothing is
  assumed about it.
\<close>

record unicode_lib =
  uni_ToUpper :: "string \<Rightarrow> string"
  uni_ToLower :: "string \<Rightarrow> string"
  uni_TrimRightSpace :: "string \<Rightarrow> string"
  uni_TrimSpace :: "string \<Rightarrow> string"

definition upper_byte :: "char \<Rightarrow> char" where
  "upper_byte c =
     (let n = (of_char c :: nat) in if 97 \<le> n \<and> n \<le> 122 then char_of (n - 32) else c)"

definition lower_byte :: "char \<Rightarrow> char" where
  "lower_byte c =
     (let n = (of_char c :: nat) in if 65 \<le> n \<and> n \<le> 90 then char_of (n + 32) else c)"

definition ToUpper :: "unicode_lib \<Rightarrow> string \<Rightarrow> string" where
  "ToUpper L s = (if ascii s then map upper_byte s else uni_ToUpper L s)"

definition ToLower :: "unicode_lib \<Rightarrow> string \<Rightarrow> string" where
  "ToLower L s = (if ascii s then map lower_byte s else uni_ToLower L s)"

text \<open>\<open>unicode.IsSpace\<close> on a 7-bit character.\<close>

definition IsSpace :: "char \<Rightarrow> bool" where
  "IsSpace c = (c = CHR 0x09 \<or> c = CHR 0x0A \<or> c = CHR 0x0B \<or> c = CHR 0x0C
                \<or> c = CHR 0x0D \<or> c = CHR 0x20)"

text \<open>\<open>strings.TrimRightFunc(s, unicode.IsSpace)\<close> scans from the end of \<open>s\<close> for the last
  character that is not white space and cuts \<open>s\<close> after it; \<open>strings.TrimSpace(s)\<close> cuts
  the white space at both ends.\<close>

definition TrimRightFunc_IsSpace :: "unicode_lib \<Rightarrow> string \<Rightarrow> string" where
  "TrimRightFunc_IsSpace L s =
     (if ascii s then rev (dropWhile IsSpace (rev s)) else uni_TrimRightSpace L s)"

definition TrimSpace :: "unicode_lib \<Rightarrow> string \<Rightarrow> string" where
  "TrimSpace L s =
     (if ascii s then dropWhile IsSpace (rev (dropWhile IsSpace (rev s)))
      else uni_TrimSpace L s)"

text \<open>\<open>strings.Index(s, sep)\<close> for a separator of one byte: the position of its first
  occurrence, \<open>None\<close> standing for \<open>-1\<close>.\<close>

fun Index :: "string \<Rightarrow> char \<Rightarrow> nat option" where
  "Index [] c = None"
| "Index (x # xs) c = (if x = c then Some 0 else map_option Suc (Index xs c))"

definition HasSuffix :: "string \<Rightarrow> string \<Rightarrow> bool" where
  "HasSuffix s suffix =
     (length suffix \<le> length s \<and> drop (length s - length suffix) s = suffix)"

text \<open>The slice expression \<open>s[lo:hi]\<close>. Go panics unless \<open>0 \<le> lo \<le> hi \<le> len(s)\<close>; the
  bounds are \<open>int\<close>s, so that \<open>len(s)-2\<close> below zero is a value the check sees.\<close>

definition slice :: "string \<Rightarrow> int \<Rightarrow> int \<Rightarrow> panic + string" where
  "slice s lo hi =
     (if 0 \<le> lo \<and> lo \<le> hi \<and> hi \<le> int (length s)
      then Inr (take (nat hi - nat lo) (drop (nat lo) s))
      else Inl SliceBoundsOutOfRange)"

section \<open>Mail addresses\<close>

type_synonym addrString = string

text \<open>The methods \<open>Email\<close> and \<open>Hostname\<close> of \<open>addrString\<close>. \<open>Hostname\<close> cuts the address
  with the slice expression \<open>e[idx+1:]\<close>, whose upper bound is \<open>len(e)\<close>.\<close>

definition addrString_Email :: "addrString \<Rightarrow> string" where
  "addrString_Email a = a"

definition addrString_Hostname :: "unicode_lib \<Rightarrow> addrString \<Rightarrow> panic + string" where
  "addrString_Hostname L a =
     (case Index a (CHR ''@'') of
        Some idx \<Rightarrow> map_sum id (ToLower L) (slice a (int idx + 1) (int (length a)))
      | None \<Rightarrow> Inr [])"

section \<open>Command lines\<close>

type_synonym cmdLine = string

text \<open>The methods \<open>Verb\<close> and \<open>Arg\<close> of \<open>cmdLine\<close>. Both cut the line with slice
  expressions that end at \<open>len(s)-2\<close>, and panic on a line too short for them.\<close>

definition Verb :: "unicode_lib \<Rightarrow> cmdLine \<Rightarrow> panic + string" where
  "Verb L cl =
     (case Index cl (CHR '' '') of
        Some idx \<Rightarrow> map_sum id (ToUpper L) (slice cl 0 (int idx))
      | None \<Rightarrow> map_sum id (ToUpper L) (slice cl 0 (int (length cl) - 2)))"

definition Arg :: "unicode_lib \<Rightarrow> cmdLine \<Rightarrow> panic + string" where
  "Arg L cl =
     (case Index cl (CHR '' '') of
        Some idx \<Rightarrow>
          map_sum id (TrimRightFunc_IsSpace L)
            (slice cl (int idx + 1) (int (length cl) - 2))
      | None \<Rightarrow> Inr [])"

definition err_no_crlf :: string where
  "err_no_crlf = ''line doesn'' @ [CHR 0x27] @ ''t end in '' @ [CHR 0x5C] @ ''r''
                 @ [CHR 0x5C] @ ''n''"

definition err_unexpected_argument :: string where
  "err_unexpected_argument = ''unexpected argument''"

text \<open>\<open>checkValid\<close> returns an \<open>os.Error\<close>: \<open>Inr None\<close> is \<open>nil\<close>, \<open>Inr (Some msg)\<close> the
  error with that message, \<open>Inl p\<close> a run-time panic inside \<open>Verb\<close> or \<open>Arg\<close>.\<close>

definition checkValid :: "unicode_lib \<Rightarrow> cmdLine \<Rightarrow> panic + string option" where
  "checkValid L cl =
     (if \<not> HasSuffix cl CRLF then Inr (Some err_no_crlf)
      else case Verb L cl of
        Inl p \<Rightarrow> Inl p
      | Inr v \<Rightarrow>
          if v = ''RSET'' \<or> v = ''DATA'' \<or> v = ''QUIT''
          then (case Arg L cl of
                  Inl p \<Rightarrow> Inl p
                | Inr a \<Rightarrow> if a \<noteq> [] then Inr (Some err_unexpected_argument) else Inr None)
          else Inr None)"

section \<open>The two address patterns\<close>

text \<open>
  \<open>mailFromRE\<close> is \<open>(?i)^from:\s*<(.*?)>\<close> and \<open>rcptToRE\<close> is \<open>(?i)^to:\s*<(.+?)>\<close>.
  \<open>FindStringSubmatch\<close> returns \<open>nil\<close> (\<open>None\<close>) when the pattern does not match, and
  otherwise the slice holding the matched text and the text of the one group.
  Both patterns are anchored at the start: the keyword in either case, then all the
  white space of class \<open>\s\<close> that follows, then \<open><\<close>, then the shortest run of
  characters other than line feed (empty allowed for \<open>.*?\<close>, at least one for \<open>.+?\<close>)
  that is followed by \<open>>\<close>. The class \<open>\s\<close> is tab, line feed, form feed, carriage
  return and space. Under \<open>(?i)\<close> a letter of the keyword matches itself and its other
  case; the letters of \<open>from\<close> and \<open>to\<close> have no further case variant in Unicode, so
  that the comparison is one of bytes. The characters \<open><\<close>, \<open>>\<close> and line feed are single
  bytes that occur in no multi-byte character, so that the group is found on bytes as
  well.
\<close>

definition re_space :: "char \<Rightarrow> bool" where
  "re_space c = (c = CHR 0x09 \<or> c = CHR 0x0A \<or> c = CHR 0x0C \<or> c = CHR 0x0D \<or> c = CHR 0x20)"

definition lazy_until_gt :: "string \<Rightarrow> string option" where
  "lazy_until_gt r =
     (let g = takeWhile (\<lambda>x. x \<noteq> CHR ''>'') r
      in if CHR ''>'' \<in> set r \<and> CHR 0x0A \<notin> set g then Some g else None)"

definition mailFromRE :: "string \<Rightarrow> string list option" where
  "mailFromRE arg =
     (if map lower_byte (take 5 arg) = ''from:''
      then (let ws = takeWhile re_space (drop 5 arg)
            in case dropWhile re_space (drop 5 arg) of
                 [] \<Rightarrow> None
               | c # r \<Rightarrow>
                   if c = CHR ''<''
                   then (case lazy_until_gt r of
                           None \<Rightarrow> None
                         | Some g \<Rightarrow> Some [take 5 arg @ ws @ ''<'' @ g @ ''>'', g])
                   else None)
      else None)"

definition rcptToRE :: "string \<Rightarrow> string list option" where
  "rcptToRE arg =
     (if map lower_byte (take 3 arg) = ''to:''
      then (let ws = takeWhile re_space (drop 3 arg)
            in case dropWhile re_space (drop 3 arg) of
                 c # c0 # r \<Rightarrow>
                   if c = CHR ''<'' \<and> c0 \<noteq> CHR 0x0A
                   then (case lazy_until_gt r of
                           None \<Rightarrow> None
                         | Some g \<Rightarrow> Some [take 3 arg @ ws @ ''<'' @ c0 # g @ ''>'', c0 # g])
                   else None
               | _ \<Rightarrow> None)
      else None)"

text \<open>The index expression \<open>m[i]\<close> on a slice that may be \<open>nil\<close>.\<close>

definition at :: "string list option \<Rightarrow> nat \<Rightarrow> panic + string" where
  "at m i =
     (case m of
        None \<Rightarrow> Inl IndexOutOfRange
      | Some ms \<Rightarrow> if i < length ms then Inr (ms ! i) else Inl IndexOutOfRange)"

section \<open>Envelopes, the server and the session\<close>

text \<open>
  \<open>Envelope\<close> is an interface with the one method \<open>AddRecipient\<close>. An envelope value is
  modelled by its state, of a type \<open>'e\<close>, and the method is passed to the session
  functions as \<open>add\<close>: it returns the envelope as the call leaves it and the \<open>os.Error\<close>
  (\<open>None\<close> for \<open>nil\<close>). \<open>BasicEnvelope\<close> is the implementation the repository has.
\<close>

record BasicEnvelope =
  rcpts :: "addrString list"

definition BasicEnvelope_AddRecipient ::
  "BasicEnvelope \<Rightarrow> addrString \<Rightarrow> BasicEnvelope \<times> string option" where
  "BasicEnvelope_AddRecipient e rcpt = (e\<lparr>rcpts := rcpts e @ [rcpt]\<rparr>, None)"

text \<open>
  The fields of \<open>Server\<close> the session reads. \<open>exec_hostname\<close> stands for the outcome of
  running the \<open>hostname\<close> command: \<open>None\<close> when it fails, its output otherwise. The
  callbacks see the session as a \<open>Connection\<close>, whose only method gives the remote
  address. \<open>OnNewMail\<close> returns an envelope (\<open>None\<close> for \<open>nil\<close>) and an error.
\<close>

record 'e Server =
  Hostname :: string
  exec_hostname :: "string option"
  OnNewConnection :: "(string \<Rightarrow> string option) option"
  OnNewMail :: "(string \<Rightarrow> addrString \<Rightarrow> 'e option \<times> string option) option"

definition hostname :: "unicode_lib \<Rightarrow> 'e Server \<Rightarrow> string" where
  "hostname L srv =
     (if Hostname srv \<noteq> [] then Hostname srv
      else case exec_hostname srv of None \<Rightarrow> [] | Some out \<Rightarrow> TrimSpace L out)"

text \<open>
  The session: \<open>env\<close> is the current envelope or \<open>nil\<close>; \<open>remoteAddr\<close> is what
  \<open>rwc.RemoteAddr()\<close> gives; \<open>wire\<close> is the sequence of bytes written through \<open>bw\<close> to
  the connection so far. Log output is not part of the model.
\<close>

record 'e session =
  env :: "'e option"
  helloType :: string
  helloHost :: string
  remoteAddr :: string
  wire :: string

definition newSession :: "string \<Rightarrow> 'e session" where
  "newSession addr =
     \<lparr>env = None, helloType = [], helloHost = [], remoteAddr = addr, wire = []\<rparr>"

text \<open>\<open>sendf\<close> formats into \<open>bw\<close> and flushes: the text reaches the connection. The
  argument here is the text already formatted. \<open>handleHello\<close> writes its six lines into
  \<open>bw\<close> and flushes once at the end, which puts the same bytes on the connection.\<close>

definition sendf :: "'e session \<Rightarrow> string \<Rightarrow> 'e session" where
  "sendf s text = s\<lparr>wire := wire s @ text\<rparr>"

definition sendlinef :: "'e session \<Rightarrow> string \<Rightarrow> 'e session" where
  "sendlinef s text = sendf s (text @ CRLF)"

definition extensions :: "string list" where
  "extensions =
     [''250-PIPELINING'', ''250-SIZE 10240000'', ''250-ENHANCEDSTATUSCODES'',
      ''250-8BITMIME'', ''250 DSN'']"

definition handleHello ::
  "unicode_lib \<Rightarrow> 'e Server \<Rightarrow> string \<Rightarrow> string \<Rightarrow> 'e session \<Rightarrow> 'e session" where
  "handleHello L srv greeting host s =
     foldl (\<lambda>st ext. sendf st (ext @ CRLF))
       (sendf (s\<lparr>helloType := greeting, helloHost := host\<rparr>) (''250-'' @ hostname L srv @ CRLF))
       extensions"

definition handleMailFrom :: "'e Server \<Rightarrow> string \<Rightarrow> 'e session \<Rightarrow> 'e session" where
  "handleMailFrom srv email s =
     (if env s \<noteq> None then sendlinef s ''503 5.5.1 Error: nested MAIL command''
      else case OnNewMail srv of
        None \<Rightarrow> sendf s (''451 Server.OnNewMail not configured'' @ CRLF)
      | Some cb \<Rightarrow>
          (let s1 = s\<lparr>env := None\<rparr>
           in case cb (remoteAddr s1) email of
                (e, Some err) \<Rightarrow> s1
              | (e, None) \<Rightarrow> sendlinef (s1\<lparr>env := e\<rparr>) ''250 2.1.0 Ok''))"

text \<open>\<open>handleRcpt\<close> returns \<open>Inl (p, s')\<close> when it panics with \<open>p\<close> in state \<open>s'\<close>.\<close>

definition handleRcpt ::
  "unicode_lib \<Rightarrow> ('e \<Rightarrow> addrString \<Rightarrow> 'e \<times> string option) \<Rightarrow> 'e session \<Rightarrow> cmdLine
     \<Rightarrow> (panic \<times> 'e session) + 'e session" where
  "handleRcpt L add s line =
     (case env s of
        None \<Rightarrow> Inr (sendlinef s ''503 5.5.1 Error: need MAIL command'')
      | Some e \<Rightarrow>
          (case Arg L line of
             Inl p \<Rightarrow> Inl (p, s)
           | Inr arg \<Rightarrow>
               (let m = rcptToRE arg;
                    s1 = (if m = None then sendlinef s ''501 5.1.7 Bad sender address syntax''
                          else s)
                in case at m 1 of
                     Inl p \<Rightarrow> Inl (p, s1)
                   | Inr rcpt \<Rightarrow>
                       (case add e rcpt of
                          (e', Some err) \<Rightarrow>
                            Inr (sendlinef (s1\<lparr>env := Some e'\<rparr>) (''550 bad recipient: '' @ err))
                        | (e', None) \<Rightarrow>
                            Inr (sendlinef (s1\<lparr>env := Some e'\<rparr>) ''250 2.1.0 Ok'')))))"

text \<open>
  One round of the loop of \<open>serve\<close>, on a line that \<open>ReadSlice\<close> has returned: the loop
  goes on (\<open>Continue\<close>), \<open>serve\<close> returns and the connection is closed (\<open>Return\<close>), or
  the goroutine panics (\<open>Panics\<close>).
\<close>

datatype 'e outcome =
  Continue "'e session"
| Return "'e session"
| Panics panic "'e session"

definition serve_line ::
  "unicode_lib \<Rightarrow> 'e Server \<Rightarrow> ('e \<Rightarrow> addrString \<Rightarrow> 'e \<times> string option) \<Rightarrow> 'e session \<Rightarrow> cmdLine
     \<Rightarrow> 'e outcome" where
  "serve_line L srv add s line =
     (case checkValid L line of
        Inl p \<Rightarrow> Panics p s
      | Inr (Some err) \<Rightarrow> Continue (sendlinef s (''500 '' @ err))
      | Inr None \<Rightarrow>
          (case Verb L line of
             Inl p \<Rightarrow> Panics p s
           | Inr v \<Rightarrow>
               if v = ''HELO'' \<or> v = ''EHLO'' then
                 (case Arg L line of
                    Inl p \<Rightarrow> Panics p s
                  | Inr host \<Rightarrow> Continue (handleHello L srv v host s))
               else if v = ''QUIT'' then Return (sendlinef s ''221 2.0.0 Bye'')
               else if v = ''RSET'' then Continue (sendlinef (s\<lparr>env := None\<rparr>) ''250 2.0.0 OK'')
               else if v = ''NOOP'' then Continue (sendlinef s ''250 2.0.0 OK'')
               else if v = ''MAIL'' then
                 (case Arg L line of
                    Inl p \<Rightarrow> Panics p s
                  | Inr arg \<Rightarrow>
                      (let m = mailFromRE arg
                       in if m = None
                          then Continue (sendlinef s ''501 5.1.7 Bad sender address syntax'')
                          else case at m 1 of
                                 Inl p \<Rightarrow> Panics p s
                               | Inr email \<Rightarrow> Continue (handleMailFrom srv email s)))
               else if v = ''RCPT'' then
                 (case handleRcpt L add s line of
                    Inl (p, s') \<Rightarrow> Panics p s'
                  | Inr s' \<Rightarrow> Continue s')
               else if v = ''DATA'' then Continue (sendlinef s ''354 Go ahead'')
               else Continue (sendlinef s ''502 5.5.2 Error: command not recognized'')))"

text \<open>
  The loop over the lines the connection delivers. The list holds the results of the
  successful calls of \<open>ReadSlice\<close>; at its end the next read fails and \<open>serve\<close> returns.
\<close>

fun serve_loop ::
  "unicode_lib \<Rightarrow> 'e Server \<Rightarrow> ('e \<Rightarrow> addrString \<Rightarrow> 'e \<times> string option) \<Rightarrow> 'e session \<Rightarrow> cmdLine list
     \<Rightarrow> 'e outcome" where
  "serve_loop L srv add s [] = Return s"
| "serve_loop L srv add s (line # rest) =
     (case serve_line L srv add s line of
        Continue s' \<Rightarrow> serve_loop L srv add s' rest
      | Return s' \<Rightarrow> Return s'
      | Panics p s' \<Rightarrow> Panics p s')"

definition serve ::
  "unicode_lib \<Rightarrow> 'e Server \<Rightarrow> ('e \<Rightarrow> addrString \<Rightarrow> 'e \<times> string option) \<Rightarrow> 'e session \<Rightarrow> cmdLine list
     \<Rightarrow> 'e outcome" where
  "serve L srv add s input =
     (let banner = ''220 '' @ hostname L srv @ '' ESMTP gosmtpd'' @ CRLF
      in case OnNewConnection srv of
           None \<Rightarrow> serve_loop L srv add (sendf s banner) input
         | Some onc \<Rightarrow>
             (case onc (remoteAddr s) of
                Some err \<Rightarrow> Return s
              | None \<Rightarrow> serve_loop L srv add (sendf s banner) input))"

text \<open>The session as it stands after a run of lines, when the loop is still going.\<close>

fun after_lines ::
  "unicode_lib \<Rightarrow> 'e Server \<Rightarrow> ('e \<Rightarrow> addrString \<Rightarrow> 'e \<times> string option) \<Rightarrow> 'e session \<Rightarrow> cmdLine list
     \<Rightarrow> 'e session option" where
  "after_lines L srv add s [] = Some s"
| "after_lines L srv add s (line # rest) =
     (case serve_line L srv add s line of
        Continue s' \<Rightarrow> after_lines L srv add s' rest
      | _ \<Rightarrow> None)"

section \<open>Lines on the wire and example servers\<close>

text \<open>
  The bytes written to a connection, cut into lines at each CRLF; the terminators are
  dropped, and bytes after the last CRLF form a last line.
\<close>

fun crlf_lines_from :: "string \<Rightarrow> string \<Rightarrow> string list" where
  "crlf_lines_from cur [] = (if cur = [] then [] else [cur])"
| "crlf_lines_from cur [c] = [cur @ [c]]"
| "crlf_lines_from cur (c # d # r) =
     (if c = CHR 0x0D \<and> d = CHR 0x0A then cur # crlf_lines_from [] r
      else crlf_lines_from (cur @ [c]) (d # r))"

definition crlf_lines :: "string \<Rightarrow> string list" where
  "crlf_lines w = crlf_lines_from [] w"

text \<open>
  Callbacks and a server to run the session on. \<open>accept_all\<close> is a new-mail hook
  that accepts every sender with a fresh \<open>BasicEnvelope\<close>; \<open>reject_all\<close> refuses every
  sender. \<open>example_lib\<close> is a value for the library parameter in evaluations: the lines,
  addresses and host names evaluated with it are 7-bit, so that none of its fields is
  consulted.
\<close>

definition example_lib :: unicode_lib where
  "example_lib =
     \<lparr>uni_ToUpper = (\<lambda>s. s), uni_ToLower = (\<lambda>s. s), uni_TrimRightSpace = (\<lambda>s. s),
      uni_TrimSpace = (\<lambda>s. s)\<rparr>"

definition accept_all :: "string \<Rightarrow> addrString \<Rightarrow> BasicEnvelope option \<times> string option" where
  "accept_all addr sender = (Some \<lparr>rcpts = []\<rparr>, None)"

definition reject_all :: "string \<Rightarrow> addrString \<Rightarrow> BasicEnvelope option \<times> string option" where
  "reject_all addr sender = (None, Some ''sender refused'')"

definition example_server ::
  "(string \<Rightarrow> addrString \<Rightarrow> BasicEnvelope option \<times> string option) option
     \<Rightarrow> BasicEnvelope Server" where
  "example_server hook =
     \<lparr>Hostname = ''mx.example.org'', exec_hostname = None, OnNewConnection = None,
      OnNewMail = hook\<rparr>"

section \<open>The specification's wording of the parsing functions\<close>

text \<open>
  The definitions of this section follow the words of the specification, not the code, and
  use none of the functions above but \<open>HasSuffix\<close>: letter case is given by the two
  alphabets, white space by its list. The theorems below compare them with the functions
  of the code.
\<close>

definition lower_letters :: string where
  "lower_letters = ''abcdefghijklmnopqrstuvwxyz''"

definition upper_letters :: string where
  "upper_letters = ''ABCDEFGHIJKLMNOPQRSTUVWXYZ''"


definition lowercased_char :: "char \<Rightarrow> char" where
  "lowercased_char c =
     (case map_of (zip upper_letters lower_letters) c of Some d \<Rightarrow> d | None \<Rightarrow> c)"


definition lowercased :: "string \<Rightarrow> string" where
  "lowercased s = map lowercased_char s"








text \<open>"The substring after the last \<open>@\<close> (case-folded to lowercase), or empty if no \<open>@\<close>
  present."\<close>

definition spec_domain :: "addrString \<Rightarrow> string" where
  "spec_domain a =
     (if CHR ''@'' \<in> set a
      then lowercased (rev (takeWhile (\<lambda>c. c \<noteq> CHR ''@'') (rev a))) else [])"

section \<open>Lemmas on the library functions\<close>







lemma lower_byte_all: "\<forall>c. lower_byte c = lowercased_char c"
  by code_simp


lemma lower_byte_lowercased: "map lower_byte s = lowercased s"
  using lower_byte_all by (simp add: lowercased_def)


lemma ToLower_ascii: "ascii s \<Longrightarrow> ToLower L s = lowercased s"
  by (simp add: ToLower_def lower_byte_lowercased)


lemma Index_takeWhile:
  "Index s c = (if c \<in> set s then Some (length (takeWhile (\<lambda>x. x \<noteq> c) s)) else None)"
  by (induction s) auto

lemma HasSuffix_CRLF_iff: "HasSuffix cl CRLF \<longleftrightarrow> (\<exists>body. cl = body @ CRLF)"
proof
  assume h: "HasSuffix cl CRLF"
  then have "drop (length cl - 2) cl = CRLF"
    by (simp add: HasSuffix_def CRLF_def numeral_2_eq_2)
  then have "cl = take (length cl - 2) cl @ CRLF"
    using append_take_drop_id [of "length cl - 2" cl] by simp
  then show "\<exists>body. cl = body @ CRLF" by blast
next
  assume "\<exists>body. cl = body @ CRLF"
  then show "HasSuffix cl CRLF" by (auto simp: HasSuffix_def CRLF_def)
qed







lemma Arg_body:
  "Arg L (body @ CRLF) =
     Inr (if CHR '' '' \<in> set body
          then TrimRightFunc_IsSpace L (tl (dropWhile (\<lambda>c. c \<noteq> CHR '' '') body)) else [])"
proof (cases "CHR '' '' \<in> set body")
  case True
  let ?p = "takeWhile (\<lambda>c. c \<noteq> CHR '' '') body"
  let ?d = "dropWhile (\<lambda>c. c \<noteq> CHR '' '') body"
  from True have d: "?d \<noteq> []" by auto
  moreover have "hd ?d = CHR '' ''" using d hd_dropWhile [of "\<lambda>c. c \<noteq> CHR '' ''" body] by simp
  ultimately obtain r where r: "?d = CHR '' '' # r"
    by (cases ?d) auto
  have body: "body = ?p @ CHR '' '' # r"
    using r takeWhile_dropWhile_id [of "\<lambda>c. c \<noteq> CHR '' ''" body] by simp
  have "length body = length (?p @ CHR '' '' # r)" using body by simp
  then have len: "length body = length ?p + 1 + length r" by simp
  have idx: "Index (body @ CRLF) (CHR '' '') = Some (length ?p)"
    using True by (simp add: Index_takeWhile CRLF_def)
  have "slice (body @ CRLF) (int (length ?p) + 1) (int (length (body @ CRLF)) - 2) = Inr r"
  proof -
    have "drop (Suc (length ?p)) (body @ CRLF) = r @ CRLF"
      by (subst body) simp
    then show ?thesis using len
      by (simp add: slice_def CRLF_def nat_add_distrib)
  qed
  then show ?thesis using True idx r by (simp add: Arg_def)
next
  case False
  then show ?thesis by (simp add: Arg_def Index_takeWhile CRLF_def)
qed

lemma Arg_total:
  assumes "HasSuffix line CRLF"
  shows "\<exists>a. Arg L line = Inr a"
proof -
  from assms obtain body where "line = body @ CRLF" using HasSuffix_CRLF_iff by blast
  then show ?thesis by (simp add: Arg_body)
qed















section \<open>Command lines: \<open>Verb\<close>, \<open>Arg\<close> and \<open>checkValid\<close>\<close>




lemma checkValid_no_CRLF:
  "\<not> HasSuffix cl CRLF \<Longrightarrow> checkValid L cl = Inr (Some err_no_crlf)"
  by (simp add: checkValid_def)





section \<open>Mail addresses: \<open>Email\<close> and \<open>Hostname\<close>\<close>

text \<open>\<open>Email\<close> returns the address as it is. \<open>Hostname\<close> returns what follows the first
  \<open>@\<close> of the address, lowercased by the library, and does not panic.\<close>

lemma Email_verbatim: "addrString_Email a = a"
  by (simp add: addrString_Email_def)

lemma Hostname_first_at:
  "addrString_Hostname L a =
     Inr (if CHR ''@'' \<in> set a then ToLower L (tl (dropWhile (\<lambda>c. c \<noteq> CHR ''@'') a)) else [])"
proof (cases "CHR ''@'' \<in> set a")
  case True
  let ?p = "takeWhile (\<lambda>c. c \<noteq> CHR ''@'') a"
  let ?d = "dropWhile (\<lambda>c. c \<noteq> CHR ''@'') a"
  have "?d \<noteq> []" using True by auto
  then have "0 < length ?d" by simp
  moreover have "length (?p @ ?d) = length a" by simp
  ultimately have "length ?p < length a" by (simp del: takeWhile_dropWhile_id length_greater_0_conv)
  moreover have dr: "drop (Suc (length ?p)) a = tl ?d"
    by (simp add: dropWhile_eq_drop drop_Suc tl_drop)
  moreover have "length (tl ?d) = length a - Suc (length ?p)"
    using arg_cong [OF dr, of length] by simp
  ultimately show ?thesis using True
    by (simp add: addrString_Hostname_def Index_takeWhile slice_def nat_add_distrib)
next
  case False
  then show ?thesis by (simp add: addrString_Hostname_def Index_takeWhile)
qed

text \<open>
  Claim C5. The interface says of \<open>Hostname\<close> that it returns the canonical host name, in
  lower case; the host name of an address is what follows its last \<open>@\<close>. \<open>Hostname\<close>
  cuts at the first \<open>@\<close> instead. For \<open>a@b@c\<close> it returns \<open>b@c\<close>, where the substring after
  the last \<open>@\<close> is \<open>c\<close>. For the address with the quoted local part \<open>a@b\<close> and the domain
  \<open>EXAMPLE.com\<close> it returns \<open>b\<close>, the closing quote, \<open>@\<close> and \<open>example.com\<close>, where the
  substring after the last \<open>@\<close>, in lower case, is \<open>example.com\<close>. Neither result is a
  host name.
\<close>

theorem Hostname_cuts_at_first_at:
  "addrString_Hostname L ''a@b@c'' = Inr ''b@c''
   \<and> spec_domain ''a@b@c'' = ''c''
   \<and> addrString_Hostname L ([CHR 0x22] @ ''a@b'' @ [CHR 0x22] @ ''@EXAMPLE.com'')
       = Inr (''b'' @ [CHR 0x22] @ ''@example.com'')
   \<and> spec_domain ([CHR 0x22] @ ''a@b'' @ [CHR 0x22] @ ''@EXAMPLE.com'') = ''example.com''"
  by code_simp

section \<open>The session: one round of the loop\<close>

text \<open>
  What the loop does with a line is fixed by the verb once the line has passed
  \<open>checkValid\<close>; the lemmas below give the round for HELO and EHLO, for MAIL and for RCPT,
  and what each handler does when the envelope is missing, when it is present, and when
  the hook is missing or refuses.
\<close>

lemma handleHello_eq:
  "handleHello L srv greeting host s =
     s\<lparr>helloType := greeting, helloHost := host,
       wire := wire s @ ''250-'' @ hostname L srv @ CRLF @ ''250-PIPELINING'' @ CRLF
         @ ''250-SIZE 10240000'' @ CRLF @ ''250-ENHANCEDSTATUSCODES'' @ CRLF
         @ ''250-8BITMIME'' @ CRLF @ ''250 DSN'' @ CRLF\<rparr>"
  by (simp add: handleHello_def extensions_def sendf_def)

lemma env_handleHello: "env (handleHello L srv greeting host s) = env s"
  by (simp add: handleHello_eq)

lemma mailFromRE_shape: "mailFromRE arg = Some m \<Longrightarrow> \<exists>whole email. m = [whole, email]"
  by (auto simp: mailFromRE_def Let_def split: if_splits list.splits option.splits)

lemma rcptToRE_shape: "rcptToRE arg = Some m \<Longrightarrow> \<exists>whole rcpt. m = [whole, rcpt]"
  by (auto simp: rcptToRE_def Let_def split: if_splits list.splits option.splits)

lemma checkValid_other_verb:
  assumes "HasSuffix line CRLF" and "Verb L line = Inr v"
    and "v \<noteq> ''RSET''" and "v \<noteq> ''DATA''" and "v \<noteq> ''QUIT''"
  shows "checkValid L line = Inr None"
  using assms by (simp add: checkValid_def)

lemma serve_line_hello:
  assumes "HasSuffix line CRLF" and "Verb L line = Inr v" and "v = ''HELO'' \<or> v = ''EHLO''"
    and "Arg L line = Inr host"
  shows "serve_line L srv add s line = Continue (handleHello L srv v host s)"
proof -
  have "checkValid L line = Inr None"
    using assms by (auto intro!: checkValid_other_verb)
  then show ?thesis using assms by (auto simp: serve_line_def)
qed

lemma serve_line_MAIL:
  assumes "HasSuffix line CRLF" and "Verb L line = Inr ''MAIL''" and "Arg L line = Inr arg"
    and "mailFromRE arg = Some [whole, email]"
  shows "serve_line L srv add s line = Continue (handleMailFrom srv email s)"
proof -
  have "checkValid L line = Inr None"
    using assms by (auto intro!: checkValid_other_verb)
  then show ?thesis using assms by (simp add: serve_line_def at_def)
qed

lemma serve_line_MAIL_no_match:
  assumes "HasSuffix line CRLF" and "Verb L line = Inr ''MAIL''" and "Arg L line = Inr arg"
    and "mailFromRE arg = None"
  shows "serve_line L srv add s line =
           Continue (s\<lparr>wire := wire s @ ''501 5.1.7 Bad sender address syntax'' @ CRLF\<rparr>)"
proof -
  have "checkValid L line = Inr None"
    using assms by (auto intro!: checkValid_other_verb)
  then show ?thesis using assms by (simp add: serve_line_def sendlinef_def sendf_def)
qed

lemma serve_line_RCPT:
  assumes "HasSuffix line CRLF" and "Verb L line = Inr ''RCPT''"
  shows "serve_line L srv add s line =
           (case handleRcpt L add s line of Inl (p, s') \<Rightarrow> Panics p s' | Inr s' \<Rightarrow> Continue s')"
proof -
  have "checkValid L line = Inr None"
    using assms by (auto intro!: checkValid_other_verb)
  then show ?thesis using assms by (simp add: serve_line_def)
qed

lemma handleMailFrom_nested:
  "env s = Some e \<Longrightarrow>
   handleMailFrom srv email s =
     s\<lparr>wire := wire s @ ''503 5.5.1 Error: nested MAIL command'' @ CRLF\<rparr>"
  by (simp add: handleMailFrom_def sendlinef_def sendf_def)

lemma handleMailFrom_unconfigured:
  "env s = None \<Longrightarrow> OnNewMail srv = None \<Longrightarrow>
   handleMailFrom srv email s =
     s\<lparr>wire := wire s @ ''451 Server.OnNewMail not configured'' @ CRLF\<rparr>"
  by (simp add: handleMailFrom_def sendf_def)

lemma handleMailFrom_rejected:
  "env s = None \<Longrightarrow> OnNewMail srv = Some cb \<Longrightarrow> cb (remoteAddr s) email = (e, Some err) \<Longrightarrow>
   handleMailFrom srv email s = s"
  by (simp add: handleMailFrom_def)

lemma handleRcpt_no_envelope:
  "env s = None \<Longrightarrow>
   handleRcpt L add s line =
     Inr (s\<lparr>wire := wire s @ ''503 5.5.1 Error: need MAIL command'' @ CRLF\<rparr>)"
  by (simp add: handleRcpt_def sendlinef_def sendf_def)

lemma handleRcpt_no_match:
  "env s = Some e \<Longrightarrow> Arg L line = Inr arg \<Longrightarrow> rcptToRE arg = None \<Longrightarrow>
   handleRcpt L add s line =
     Inl (IndexOutOfRange,
          s\<lparr>wire := wire s @ ''501 5.1.7 Bad sender address syntax'' @ CRLF\<rparr>)"
  by (simp add: handleRcpt_def at_def sendlinef_def sendf_def)

text \<open>
  The scenario of the specification, on the example server with the accept-all hook: the
  banner, the six lines that answer EHLO, 250 for MAIL and for RCPT, 221 for QUIT, and
  \<open>serve\<close> returns with the recipient in the envelope.
\<close>

lemma end_to_end_scenario:
  "(case serve L (example_server (Some accept_all)) BasicEnvelope_AddRecipient
           (newSession ''peer'')
           [''EHLO h'' @ CRLF, ''MAIL FROM:<a@b.com>'' @ CRLF, ''RCPT TO:<c@d.com>'' @ CRLF,
            ''QUIT'' @ CRLF] of
      Return s \<Rightarrow>
        crlf_lines (wire s) =
          [''220 mx.example.org ESMTP gosmtpd'', ''250-mx.example.org'', ''250-PIPELINING'',
           ''250-SIZE 10240000'', ''250-ENHANCEDSTATUSCODES'', ''250-8BITMIME'', ''250 DSN'',
           ''250 2.1.0 Ok'', ''250 2.1.0 Ok'', ''221 2.0.0 Bye'']
        \<and> env s = Some \<lparr>rcpts = [''c@d.com'']\<rparr>
        \<and> helloType s = ''EHLO'' \<and> helloHost s = ''h''
    | _ \<Rightarrow> False)"
  by code_simp

section \<open>MAIL and RCPT out of sequence\<close>

text \<open>
  Claim C1, as amended. In a session with an active envelope, a MAIL command is answered
  with 503 when its argument matches the sender pattern and with 501 when it does not. In
  both cases the loop continues and the session is as before but for the reply written:
  the envelope is the same value, so its recipients are those accepted since the MAIL
  command that created it.
\<close>

theorem second_MAIL_keeps_envelope:
  assumes "env s = Some e" and "HasSuffix line CRLF" and "Verb L line = Inr ''MAIL''"
  shows "\<exists>arg s'. Arg L line = Inr arg
           \<and> serve_line L srv add s line = Continue s'
           \<and> s' = s\<lparr>wire := wire s
                      @ (if mailFromRE arg = None then ''501 5.1.7 Bad sender address syntax''
                         else ''503 5.5.1 Error: nested MAIL command'') @ CRLF\<rparr>
           \<and> env s' = Some e"
proof -
  from assms(2) obtain arg where arg: "Arg L line = Inr arg" using Arg_total by blast
  show ?thesis
  proof (cases "mailFromRE arg")
    case None
    then show ?thesis
      using assms arg by (simp add: serve_line_MAIL_no_match)
  next
    case (Some m)
    then obtain whole email where "mailFromRE arg = Some [whole, email]"
      using mailFromRE_shape by blast
    then show ?thesis
      using assms arg by (simp add: serve_line_MAIL handleMailFrom_nested)
  qed
qed

text \<open>
  With the accept-all hook and the default envelope: after \<open>MAIL FROM:<a@b.com>\<close> and
  \<open>RCPT TO:<c@d.com>\<close>, a second MAIL gets 503 and the envelope still holds \<open>c@d.com\<close>.
\<close>

theorem second_MAIL_keeps_envelope_witness:
  "after_lines example_lib (example_server (Some accept_all)) BasicEnvelope_AddRecipient
     (newSession ''peer'')
     [''MAIL FROM:<a@b.com>'' @ CRLF, ''RCPT TO:<c@d.com>'' @ CRLF]
     = Some \<lparr>env = Some \<lparr>rcpts = [''c@d.com'']\<rparr>, helloType = [], helloHost = [],
              remoteAddr = ''peer'', wire = ''250 2.1.0 Ok'' @ CRLF @ ''250 2.1.0 Ok'' @ CRLF\<rparr>
   \<and> (\<exists>s'. serve_line example_lib (example_server (Some accept_all)) BasicEnvelope_AddRecipient
              \<lparr>env = Some \<lparr>rcpts = [''c@d.com'']\<rparr>, helloType = [], helloHost = [],
              remoteAddr = ''peer'', wire = ''250 2.1.0 Ok'' @ CRLF @ ''250 2.1.0 Ok'' @ CRLF\<rparr>
              (''MAIL FROM:<x@y.com>'' @ CRLF) = Continue s'
          \<and> env s' = Some \<lparr>rcpts = [''c@d.com'']\<rparr>
          \<and> wire s' = ''250 2.1.0 Ok'' @ CRLF @ ''250 2.1.0 Ok'' @ CRLF
                       @ ''503 5.5.1 Error: nested MAIL command'' @ CRLF)"
proof -
  let ?s = "\<lparr>env = Some \<lparr>rcpts = [''c@d.com'']\<rparr>, helloType = [], helloHost = [],
              remoteAddr = ''peer'', wire = ''250 2.1.0 Ok'' @ CRLF @ ''250 2.1.0 Ok'' @ CRLF\<rparr>"
  have run: "after_lines example_lib (example_server (Some accept_all))
               BasicEnvelope_AddRecipient (newSession ''peer'')
               [''MAIL FROM:<a@b.com>'' @ CRLF, ''RCPT TO:<c@d.com>'' @ CRLF] = Some ?s"
    by code_simp
  have e: "env ?s = Some \<lparr>rcpts = [''c@d.com'']\<rparr>" by simp
  have h: "HasSuffix (''MAIL FROM:<x@y.com>'' @ CRLF) CRLF" by code_simp
  have v: "Verb example_lib (''MAIL FROM:<x@y.com>'' @ CRLF) = Inr ''MAIL''" by code_simp
  have a: "Arg example_lib (''MAIL FROM:<x@y.com>'' @ CRLF) = Inr ''FROM:<x@y.com>''"
    by code_simp
  have m: "mailFromRE ''FROM:<x@y.com>'' \<noteq> None" by code_simp
  show ?thesis
    using run a m
      second_MAIL_keeps_envelope [OF e h v, of "example_server (Some accept_all)"
        BasicEnvelope_AddRecipient]
    by auto
qed

text \<open>
  With an active envelope the line \<open>MAIL FROM:a@b.com\<close>, whose address has no angle
  brackets, is answered with 501, not with 503.
\<close>

theorem second_MAIL_bad_syntax_counterexample:
  "serve_line example_lib (example_server (Some accept_all)) BasicEnvelope_AddRecipient
     \<lparr>env = Some \<lparr>rcpts = [''c@d.com'']\<rparr>, helloType = [], helloHost = [],
      remoteAddr = ''peer'', wire = []\<rparr>
     (''MAIL FROM:a@b.com'' @ CRLF)
   = Continue
       \<lparr>env = Some \<lparr>rcpts = [''c@d.com'']\<rparr>, helloType = [], helloHost = [],
        remoteAddr = ''peer'', wire = ''501 5.1.7 Bad sender address syntax'' @ CRLF\<rparr>"
  by code_simp

text \<open>
  Claim C2. In a session without envelope, a RCPT command is answered with 503, whatever
  its argument; the loop continues, no envelope is created and the session is as before but
  for the reply written.
\<close>

theorem RCPT_without_MAIL_rejected:
  assumes "env s = None" and "HasSuffix line CRLF" and "Verb L line = Inr ''RCPT''"
  shows "\<exists>s'. serve_line L srv add s line = Continue s'
           \<and> s' = s\<lparr>wire := wire s @ ''503 5.5.1 Error: need MAIL command'' @ CRLF\<rparr>
           \<and> env s' = None"
  using assms by (simp add: serve_line_RCPT handleRcpt_no_envelope)

theorem RCPT_without_MAIL_rejected_witness:
  "env (newSession ''peer'' :: BasicEnvelope session) = None
   \<and> HasSuffix (''RCPT TO:<x@y.com>'' @ CRLF) CRLF
   \<and> Verb example_lib (''RCPT TO:<x@y.com>'' @ CRLF) = Inr ''RCPT''
   \<and> serve_line example_lib (example_server (Some accept_all)) BasicEnvelope_AddRecipient
        (newSession ''peer'') (''RCPT TO:<x@y.com>'' @ CRLF)
      = Continue \<lparr>env = None, helloType = [], helloHost = [], remoteAddr = ''peer'',
                  wire = ''503 5.5.1 Error: need MAIL command'' @ CRLF\<rparr>"
proof -
  have e: "env (newSession ''peer'' :: BasicEnvelope session) = None"
    by (simp add: newSession_def)
  have h: "HasSuffix (''RCPT TO:<x@y.com>'' @ CRLF) CRLF" by code_simp
  have v: "Verb example_lib (''RCPT TO:<x@y.com>'' @ CRLF) = Inr ''RCPT''" by code_simp
  show ?thesis
    using e h v
      RCPT_without_MAIL_rejected [OF e h v, of "example_server (Some accept_all)"
        BasicEnvelope_AddRecipient]
    by (auto simp: newSession_def)
qed

section \<open>RCPT with a malformed recipient\<close>

text \<open>
  In a session with an active envelope, a RCPT command whose argument does not match the
  recipient pattern is answered with 501. \<open>handleRcpt\<close> does not return there: it goes on
  to \<open>m[1]\<close> with \<open>m\<close> being \<open>nil\<close>, and the goroutine panics before \<open>AddRecipient\<close> is
  called. The loop does not continue.
\<close>

lemma RCPT_bad_syntax_general:
  assumes "env s = Some e" and "HasSuffix line CRLF" and "Verb L line = Inr ''RCPT''"
    and "Arg L line = Inr arg" and "rcptToRE arg = None"
  shows "serve_line L srv add s line =
           Panics IndexOutOfRange
             (s\<lparr>wire := wire s @ ''501 5.1.7 Bad sender address syntax'' @ CRLF\<rparr>)"
  using assms by (simp add: serve_line_RCPT handleRcpt_no_match)

text \<open>
  Claim C3, at the line \<open>RCPT foo\<close>: the reply 501 is written, the envelope is untouched,
  and the round ends in a panic rather than in the next round of the loop.
\<close>

theorem RCPT_bad_syntax_panics:
  "serve_line L (example_server (Some accept_all)) BasicEnvelope_AddRecipient
     \<lparr>env = Some \<lparr>rcpts = []\<rparr>, helloType = [], helloHost = [], remoteAddr = ''peer'',
      wire = []\<rparr>
     (''RCPT foo'' @ CRLF)
   = Panics IndexOutOfRange
       \<lparr>env = Some \<lparr>rcpts = []\<rparr>, helloType = [], helloHost = [], remoteAddr = ''peer'',
        wire = ''501 5.1.7 Bad sender address syntax'' @ CRLF\<rparr>"
  by code_simp

section \<open>The reply to HELO and EHLO\<close>

text \<open>
  Claim C4, as amended. The reply to HELO or EHLO is the line \<open>250-\<close> with the server's
  host name, followed by exactly five extension lines, the first four starting with
  \<open>250-\<close> and the last with \<open>250\<close> and a space: PIPELINING, SIZE 10240000,
  ENHANCEDSTATUSCODES, 8BITMIME and DSN, in this order.
\<close>

theorem handleHello_response:
  "wire (handleHello L srv greeting host s) =
     wire s @ ''250-'' @ hostname L srv @ CRLF
       @ ''250-PIPELINING'' @ CRLF @ ''250-SIZE 10240000'' @ CRLF
       @ ''250-ENHANCEDSTATUSCODES'' @ CRLF @ ''250-8BITMIME'' @ CRLF @ ''250 DSN'' @ CRLF
   \<and> crlf_lines (''250-PIPELINING'' @ CRLF @ ''250-SIZE 10240000'' @ CRLF
       @ ''250-ENHANCEDSTATUSCODES'' @ CRLF @ ''250-8BITMIME'' @ CRLF @ ''250 DSN'' @ CRLF)
     = [''250-PIPELINING'', ''250-SIZE 10240000'', ''250-ENHANCEDSTATUSCODES'',
        ''250-8BITMIME'', ''250 DSN'']"
proof
  show "wire (handleHello L srv greeting host s) =
     wire s @ ''250-'' @ hostname L srv @ CRLF
       @ ''250-PIPELINING'' @ CRLF @ ''250-SIZE 10240000'' @ CRLF
       @ ''250-ENHANCEDSTATUSCODES'' @ CRLF @ ''250-8BITMIME'' @ CRLF @ ''250 DSN'' @ CRLF"
    by (simp add: handleHello_eq)
  show "crlf_lines (''250-PIPELINING'' @ CRLF @ ''250-SIZE 10240000'' @ CRLF
       @ ''250-ENHANCEDSTATUSCODES'' @ CRLF @ ''250-8BITMIME'' @ CRLF @ ''250 DSN'' @ CRLF)
     = [''250-PIPELINING'', ''250-SIZE 10240000'', ''250-ENHANCEDSTATUSCODES'',
        ''250-8BITMIME'', ''250 DSN'']"
    by code_simp
qed

text \<open>
  With the host name \<open>mx.example.org\<close> the reply to \<open>EHLO client.example\<close> has six
  lines, not five, and five of them start with \<open>250-\<close>.
\<close>

theorem hello_response_six_lines_counterexample:
  "crlf_lines (wire (handleHello example_lib (example_server None) ''EHLO'' ''client.example''
      (newSession ''peer'')))
   = [''250-mx.example.org'', ''250-PIPELINING'', ''250-SIZE 10240000'',
      ''250-ENHANCEDSTATUSCODES'', ''250-8BITMIME'', ''250 DSN'']
   \<and> length (crlf_lines (wire (handleHello example_lib (example_server None) ''EHLO''
      ''client.example'' (newSession ''peer'')))) = 6"
  by code_simp

text \<open>
  Claim C10. A HELO or EHLO line changes the recorded hello type and hello host and
  writes the reply; the envelope, active or not, and the rest of the session stay as
  they are. The loop continues.
\<close>

theorem hello_keeps_envelope:
  assumes "HasSuffix line CRLF" and "Verb L line = Inr v" and "v = ''HELO'' \<or> v = ''EHLO''"
  shows "\<exists>s'. serve_line L srv add s line = Continue s'
           \<and> env s' = env s
           \<and> s' = s\<lparr>helloType := helloType s', helloHost := helloHost s', wire := wire s'\<rparr>
           \<and> helloType s' = v \<and> Arg L line = Inr (helloHost s')"
proof -
  from assms(1) obtain host where host: "Arg L line = Inr host" using Arg_total by blast
  have "serve_line L srv add s line = Continue (handleHello L srv v host s)"
    using assms host by (rule serve_line_hello)
  then show ?thesis using host by (simp add: handleHello_eq)
qed

theorem hello_keeps_envelope_witness:
  "HasSuffix (''ehlo client.example'' @ CRLF) CRLF
   \<and> Verb example_lib (''ehlo client.example'' @ CRLF) = Inr ''EHLO''
   \<and> (\<exists>s'. serve_line example_lib (example_server (Some accept_all)) BasicEnvelope_AddRecipient
              \<lparr>env = Some \<lparr>rcpts = [''c@d.com'']\<rparr>, helloType = ''HELO'', helloHost = ''old'',
               remoteAddr = ''peer'', wire = []\<rparr>
              (''ehlo client.example'' @ CRLF) = Continue s'
          \<and> env s' = Some \<lparr>rcpts = [''c@d.com'']\<rparr>
          \<and> helloType s' = ''EHLO'' \<and> helloHost s' = ''client.example'')"
proof -
  have h: "HasSuffix (''ehlo client.example'' @ CRLF) CRLF" by code_simp
  have v: "Verb example_lib (''ehlo client.example'' @ CRLF) = Inr ''EHLO''" by code_simp
  have a: "Arg example_lib (''ehlo client.example'' @ CRLF) = Inr ''client.example''"
    by code_simp
  have d: "''EHLO'' = ''HELO'' \<or> ''EHLO'' = ''EHLO''" by simp
  show ?thesis
    using h v a
      hello_keeps_envelope [OF h v d, of "example_server (Some accept_all)"
        BasicEnvelope_AddRecipient
        "\<lparr>env = Some \<lparr>rcpts = [''c@d.com'']\<rparr>, helloType = ''HELO'', helloHost = ''old'',
          remoteAddr = ''peer'', wire = []\<rparr>"]
    by auto
qed

section \<open>MAIL and the new-mail hook\<close>

text \<open>
  Without a new-mail hook a session never gets an envelope: a round of the loop that
  starts without one ends without one.
\<close>

lemma serve_line_keeps_no_envelope:
  assumes "OnNewMail srv = None" and "env s = None"
    and "serve_line L srv add s line = Continue s'"
  shows "env s' = None"
  using assms
  by (auto simp: serve_line_def env_handleHello handleMailFrom_unconfigured
      handleRcpt_no_envelope sendlinef_def sendf_def Let_def
      split: sum.splits option.splits if_splits)

lemma after_lines_keeps_no_envelope:
  "OnNewMail srv = None \<Longrightarrow> env s0 = None \<Longrightarrow> after_lines L srv add s0 ls = Some s
   \<Longrightarrow> env s = None"
proof (induction ls arbitrary: s0)
  case Nil
  then show ?case by simp
next
  case (Cons l ls)
  then obtain s1 where s1: "serve_line L srv add s0 l = Continue s1"
    and rest: "after_lines L srv add s1 ls = Some s"
    by (auto split: outcome.splits)
  from Cons.prems(1,2) s1 have "env s1 = None" by (rule serve_line_keeps_no_envelope)
  with Cons.IH Cons.prems(1) rest show ?case by blast
qed

text \<open>
  Claim C8. On a server without new-mail hook, at any point of a session that started
  without envelope, a MAIL command whose argument matches the sender pattern is answered
  with 451; no envelope is created and the loop continues.
\<close>

theorem MAIL_without_hook_451:
  assumes "OnNewMail srv = None" and "env s0 = None"
    and "after_lines L srv add s0 ls = Some s"
    and "HasSuffix line CRLF" and "Verb L line = Inr ''MAIL''"
    and "Arg L line = Inr arg" and "mailFromRE arg = Some [whole, email]"
  shows "\<exists>s'. serve_line L srv add s line = Continue s'
           \<and> s' = s\<lparr>wire := wire s @ ''451 Server.OnNewMail not configured'' @ CRLF\<rparr>
           \<and> env s' = None"
proof -
  have "env s = None"
    using assms(1,2,3) by (rule after_lines_keeps_no_envelope)
  then show ?thesis
    using assms by (simp add: serve_line_MAIL handleMailFrom_unconfigured)
qed

theorem MAIL_without_hook_451_witness:
  "after_lines example_lib (example_server None) BasicEnvelope_AddRecipient
     (newSession ''peer'') [''RSET'' @ CRLF, ''RCPT TO:<c@d.com>'' @ CRLF]
     = Some \<lparr>env = None, helloType = [], helloHost = [], remoteAddr = ''peer'',
              wire = ''250 2.0.0 OK'' @ CRLF @ ''503 5.5.1 Error: need MAIL command'' @ CRLF\<rparr>
   \<and> serve_line example_lib (example_server None) BasicEnvelope_AddRecipient
        \<lparr>env = None, helloType = [], helloHost = [], remoteAddr = ''peer'',
         wire = ''250 2.0.0 OK'' @ CRLF @ ''503 5.5.1 Error: need MAIL command'' @ CRLF\<rparr>
        (''MAIL FROM:<a@b.com>'' @ CRLF)
      = Continue \<lparr>env = None, helloType = [], helloHost = [], remoteAddr = ''peer'',
           wire = ''250 2.0.0 OK'' @ CRLF @ ''503 5.5.1 Error: need MAIL command'' @ CRLF
                  @ ''451 Server.OnNewMail not configured'' @ CRLF\<rparr>"
proof -
  let ?srv = "example_server None"
  let ?s = "\<lparr>env = None, helloType = [], helloHost = [], remoteAddr = ''peer'',
             wire = ''250 2.0.0 OK'' @ CRLF @ ''503 5.5.1 Error: need MAIL command'' @ CRLF\<rparr>
           :: BasicEnvelope session"
  have c: "OnNewMail ?srv = None" by (simp add: example_server_def)
  have e: "env (newSession ''peer'' :: BasicEnvelope session) = None"
    by (simp add: newSession_def)
  have run: "after_lines example_lib ?srv BasicEnvelope_AddRecipient (newSession ''peer'')
               [''RSET'' @ CRLF, ''RCPT TO:<c@d.com>'' @ CRLF] = Some ?s"
    by code_simp
  have h: "HasSuffix (''MAIL FROM:<a@b.com>'' @ CRLF) CRLF" by code_simp
  have v: "Verb example_lib (''MAIL FROM:<a@b.com>'' @ CRLF) = Inr ''MAIL''" by code_simp
  have a: "Arg example_lib (''MAIL FROM:<a@b.com>'' @ CRLF) = Inr ''FROM:<a@b.com>''"
    by code_simp
  have m: "mailFromRE ''FROM:<a@b.com>'' = Some [''FROM:<a@b.com>'', ''a@b.com'']" by code_simp
  show ?thesis
    using run MAIL_without_hook_451 [OF c e run h v a m] by auto
qed

text \<open>
  Claim C9. In a session without envelope, when the argument of a MAIL command matches
  the sender pattern and the new-mail hook returns an error, nothing is written to the
  client, the session still has no envelope, and the loop continues: the session after
  the round is the session before it.
\<close>

theorem MAIL_hook_error_silent:
  assumes "env s = None" and "OnNewMail srv = Some cb"
    and "HasSuffix line CRLF" and "Verb L line = Inr ''MAIL''"
    and "Arg L line = Inr arg" and "mailFromRE arg = Some [whole, email]"
    and "cb (remoteAddr s) email = (e, Some err)"
  shows "serve_line L srv add s line = Continue s"
  using assms by (simp add: serve_line_MAIL handleMailFrom_rejected)

theorem MAIL_hook_error_silent_witness:
  "OnNewMail (example_server (Some reject_all)) = Some reject_all
   \<and> reject_all ''peer'' ''a@b.com'' = (None, Some ''sender refused'')
   \<and> serve_line example_lib (example_server (Some reject_all)) BasicEnvelope_AddRecipient
        (newSession ''peer'') (''MAIL FROM:<a@b.com>'' @ CRLF)
      = Continue \<lparr>env = None, helloType = [], helloHost = [], remoteAddr = ''peer'',
                  wire = []\<rparr>"
proof -
  have e: "env (newSession ''peer'' :: BasicEnvelope session) = None"
    by (simp add: newSession_def)
  have c: "OnNewMail (example_server (Some reject_all)) = Some reject_all"
    by (simp add: example_server_def)
  have h: "HasSuffix (''MAIL FROM:<a@b.com>'' @ CRLF) CRLF" by code_simp
  have v: "Verb example_lib (''MAIL FROM:<a@b.com>'' @ CRLF) = Inr ''MAIL''" by code_simp
  have a: "Arg example_lib (''MAIL FROM:<a@b.com>'' @ CRLF) = Inr ''FROM:<a@b.com>''"
    by code_simp
  have m: "mailFromRE ''FROM:<a@b.com>'' = Some [''FROM:<a@b.com>'', ''a@b.com'']" by code_simp
  have r: "reject_all (remoteAddr (newSession ''peer'' :: BasicEnvelope session)) ''a@b.com''
             = (None, Some ''sender refused'')"
    by (simp add: reject_all_def)
  show ?thesis
    using c MAIL_hook_error_silent [OF e c h v a m r, of BasicEnvelope_AddRecipient]
    by (simp add: newSession_def reject_all_def)
qed

end
